theory Spec2Isabelle
  imports Main "HOL-Library.AList"
begin

section \<open>Configuration objects (ecfg/library/configuration.py)\<close>

text \<open>
  The values a configuration holds are the values that JSON can carry. Floating point
  numbers are left out. A Python \<open>dict\<close> with string keys is an association list in
  insertion order whose keys are distinct. Equality of these terms is finer than Python's
  \<open>==\<close> (which ignores the order of a dictionary's keys), so two equal terms are
  equal Python values.
\<close>

datatype json =
    JNull
  | JBool bool
  | JInt int
  | JStr string
  | JArr "json list"
  | JObj "(string \<times> json) list"

type_synonym pydict = "(string \<times> json) list"

datatype error =
    ProgrammingException
  | TypeError
  | ValueError
  | JSONDecodeError
  | OSError

text \<open>
  A configuration type is \<open>DictConfig\<close> or a dataclass deriving from
  \<open>DataclassConfiguration\<close>. A dataclass is given by its fields in declaration order
  and by the \<open>eq\<close> argument of \<open>@dataclass\<close>. A field is a parameter of the generated
  \<open>__init__\<close>, with its default value when it has one (\<open>Param\<close>), or is declared
  \<open>field(init=False, default=v)\<close> and always starts at \<open>v\<close> (\<open>Preset\<close>). The fields
  hold JSON values only, so no field holds a nested dataclass (the limitation that the
  class documents). A class with an \<open>InitVar\<close>, with a \<open>__post_init__\<close>, or with an
  \<open>init=False\<close> field without default is not represented.
\<close>

datatype field_kind =
    Param "json option"
  | Preset json

type_synonym dataclass_fields = "(string \<times> field_kind) list"

datatype config_type =
    DictConfig
  | DataclassConfiguration dataclass_fields bool

text \<open>
  An instance: a \<open>DictConfig\<close> is its dictionary; an instance of a dataclass carries
  its class and the values of its fields, in the order of the fields.
\<close>

datatype config_object =
    DictObj pydict
  | DataObj dataclass_fields bool "json list"

text \<open>
  The \<open>__init__\<close> that \<open>@dataclass\<close> generates, called with keyword arguments \<open>kw\<close>:
  every parameter takes its keyword argument, or else its default; a parameter with
  neither is a missing argument (\<open>None\<close> here, a \<open>TypeError\<close> in Python); a field
  that is no parameter takes its preset value.
\<close>

fun init_fields :: "dataclass_fields \<Rightarrow> pydict \<Rightarrow> json list option" where
  "init_fields [] kw = Some []"
| "init_fields ((n, Param d) # fs) kw =
     (case (case map_of kw n of Some v \<Rightarrow> Some v | None \<Rightarrow> d) of
        None \<Rightarrow> None
      | Some v \<Rightarrow> map_option ((#) v) (init_fields fs kw))"
| "init_fields ((n, Preset v) # fs) kw = map_option ((#) v) (init_fields fs kw)"

text \<open>The names that the generated \<open>__init__\<close> accepts as keywords.\<close>

fun is_param :: "field_kind \<Rightarrow> bool" where
  "is_param (Param d) = True"
| "is_param (Preset v) = False"

definition parameters :: "dataclass_fields \<Rightarrow> string list" where
  "parameters fs = map fst (filter (\<lambda>f. is_param (snd f)) fs)"

text \<open>\<open>config_type()\<close>: the call of the class with no argument.\<close>

definition construct :: "config_type \<Rightarrow> error + config_object" where
  "construct t =
     (case t of
        DictConfig \<Rightarrow> Inr (DictObj [])
      | DataclassConfiguration fs e \<Rightarrow>
          (case init_fields fs [] of
             None \<Rightarrow> Inl TypeError
           | Some vs \<Rightarrow> Inr (DataObj fs e vs)))"

text \<open>
  \<open>to_json\<close>: a \<open>DictConfig\<close> returns itself; a dataclass returns \<open>asdict(self)\<close>,
  the dictionary of the names and values of all its fields, parameters or not.
\<close>

definition to_json :: "config_object \<Rightarrow> pydict" where
  "to_json obj =
     (case obj of
        DictObj d \<Rightarrow> d
      | DataObj fs e vs \<Rightarrow> zip (map fst fs) vs)"

text \<open>
  \<open>from_json\<close>, a class method: \<open>DictConfig\<close> builds \<open>cls(data)\<close>, a dictionary with
  the items of \<open>data\<close>; a dataclass calls \<open>cls\<close> with the items of \<open>data\<close> as keyword
  arguments, which raises \<open>TypeError\<close> on a key that is no parameter of \<open>__init__\<close>
  and on a parameter that is left without a value.
\<close>

definition from_json :: "config_type \<Rightarrow> pydict \<Rightarrow> error + config_object" where
  "from_json cls data =
     (case cls of
        DictConfig \<Rightarrow> Inr (DictObj data)
      | DataclassConfiguration fs e \<Rightarrow>
          (if list_ex (\<lambda>k. k \<notin> set (parameters fs)) (map fst data) then Inl TypeError
           else (case init_fields fs data of
                   None \<Rightarrow> Inl TypeError
                 | Some vs \<Rightarrow> Inr (DataObj fs e vs))))"



section \<open>Names and paths (ecfg/library/config_manager.py)\<close>

text \<open>
  Strings are sequences of code points below 256. \<open>str.lower\<close> maps the capital
  letters of that range (A to Z, and U+00C0 to U+00DE without the multiplication sign
  U+00D7) to their small letters, 32 code points further. \<open>str.strip\<close> removes the
  leading and trailing white space: U+0009 to U+000D, U+001C to U+0020, U+0085
  and U+00A0.
\<close>

definition lower_char :: "char \<Rightarrow> char" where
  "lower_char c =
     (let n = (of_char c :: nat) in
      if (65 \<le> n \<and> n \<le> 90) \<or> (192 \<le> n \<and> n \<le> 222 \<and> n \<noteq> 215)
      then char_of (n + 32) else c)"

definition lower :: "string \<Rightarrow> string" where
  "lower s = map lower_char s"

definition isspace :: "char \<Rightarrow> bool" where
  "isspace c =
     (let n = (of_char c :: nat) in
      (9 \<le> n \<and> n \<le> 13) \<or> (28 \<le> n \<and> n \<le> 32) \<or> n = 133 \<or> n = 160)"

definition strip :: "string \<Rightarrow> string" where
  "strip s = rev (dropWhile isspace (rev (dropWhile isspace s)))"

definition get_effective_config_name :: "string \<Rightarrow> string" where
  "get_effective_config_name config_name = strip (lower config_name)"

text \<open>
  \<open>os.path.join\<close> of two components, as \<open>posixpath\<close> has it: a second component
  that starts with the separator replaces the first; otherwise the two are put together,
  with one separator between them unless the first is empty or ends with one.
\<close>

fun startswith_sep :: "string \<Rightarrow> bool" where
  "startswith_sep [] = False"
| "startswith_sep (c # cs) = (c = CHR ''/'')"

definition endswith_sep :: "string \<Rightarrow> bool" where
  "endswith_sep s = startswith_sep (rev s)"

definition join :: "string \<Rightarrow> string \<Rightarrow> string" where
  "join a b =
     (if startswith_sep b then b
      else if a = [] \<or> endswith_sep a then a @ b
      else a @ ''/'' @ b)"

text \<open>
  \<open>get_full_config_path\<close>; \<open>home\<close> is the value of \<open>path.expanduser('~')\<close>, and
  \<open>not config_path\<close> holds of \<open>None\<close> and of the empty string.
\<close>

definition get_full_config_path :: "string \<Rightarrow> string \<Rightarrow> string option \<Rightarrow> string" where
  "get_full_config_path home config_name config_path =
     (case config_path of
        None \<Rightarrow> join (join home ''.empire'') (config_name @ ''.ecfg'')
      | Some p \<Rightarrow>
          (if p = [] then join (join home ''.empire'') (config_name @ ''.ecfg'')
           else join p (config_name @ ''.ecfg'')))"

section \<open>The collaborators: codecs and the file system\<close>

text \<open>
  The content of a file is kept symbolic. \<open>JsonText d\<close> is the JSON text of the
  object \<open>d\<close> (what \<open>orjson.dumps\<close> returns for it, which \<open>orjson.loads\<close> reads
  back), \<open>B85 b\<close> is the base85 text of a content \<open>b\<close> that is not empty (what
  \<open>b85encode\<close> returns, which \<open>b85decode\<close> reads back), \<open>Raw []\<close> is the empty
  content, which is its own base85 text, and any other \<open>Raw\<close> is a content that no
  decoder accepts. Text and its UTF-8 bytes are not told apart. A file whose JSON document
  is not an object is not represented; the program writes none.
\<close>

datatype bytes =
    JsonText pydict
  | B85 bytes
  | Raw string

text \<open>
  \<open>orjson.dumps\<close> does not encode every value: it raises \<open>JSONEncodeError\<close>, a
  \<open>TypeError\<close>, on an integer beyond 64 bits, for one. Which dictionaries it encodes is
  a parameter, \<open>encodable\<close>, of \<open>dumps\<close> and of what calls it, so that what is proved
  holds whatever the library accepts.
\<close>

definition dumps :: "(pydict \<Rightarrow> bool) \<Rightarrow> pydict \<Rightarrow> error + bytes" where
  "dumps encodable d = (if encodable d then Inr (JsonText d) else Inl TypeError)"



definition loads :: "bytes \<Rightarrow> error + pydict" where
  "loads b = (case b of JsonText d \<Rightarrow> Inr d | B85 _ \<Rightarrow> Inl JSONDecodeError | Raw _ \<Rightarrow> Inl JSONDecodeError)"

definition b85encode :: "bytes \<Rightarrow> bytes" where
  "b85encode b = (if b = Raw [] then Raw [] else B85 b)"

definition b85decode :: "bytes \<Rightarrow> error + bytes" where
  "b85decode b =
     (case b of
        B85 c \<Rightarrow> Inr c
      | JsonText _ \<Rightarrow> Inl ValueError
      | Raw t \<Rightarrow> if t = [] then Inr (Raw []) else Inl ValueError)"

text \<open>
  The file system: the regular files by path (\<open>path.isfile\<close> holds of exactly
  these), the paths at which \<open>open\<close> raises \<open>OSError\<close> for reading and for writing
  (a permission that is missing, a directory that does not exist), and the home
  directory. A path is the name of its file: two spellings of one path are two names.
\<close>

record filesystem =
  files :: "string \<rightharpoonup> bytes"
  unreadable :: "string set"
  unwritable :: "string set"
  home :: string

definition isfile :: "filesystem \<Rightarrow> string \<Rightarrow> bool" where
  "isfile fs p = (files fs p \<noteq> None)"

definition read_file :: "filesystem \<Rightarrow> string \<Rightarrow> error + bytes" where
  "read_file fs p =
     (case files fs p of
        None \<Rightarrow> Inl OSError
      | Some b \<Rightarrow> if p \<in> unreadable fs then Inl OSError else Inr b)"

definition write_file :: "filesystem \<Rightarrow> string \<Rightarrow> bytes \<Rightarrow> error + filesystem" where
  "write_file fs p b =
     (if p \<in> unwritable fs then Inl OSError
      else Inr (fs\<lparr>files := (files fs)(p \<mapsto> b)\<rparr>))"

section \<open>The registry (class ConfigManager)\<close>

text \<open>
  \<open>_Configuration\<close>: \<open>config\<close> is a reference to the instance, so that two records
  hold the same object exactly when their references are equal. \<open>path\<close> is \<open>None\<close>
  when a record that is not serializable was made without a path. The field \<open>type'\<close>
  is the source's \<open>type_\<close>.
\<close>

record configuration =
  config :: nat
  is_encoded :: bool
  type' :: config_type
  path :: "string option"
  serializable :: bool

text \<open>
  The state of the process: \<open>ConfigManager._instances\<close> (a dictionary, in insertion
  order), the objects by reference, the next reference that is free, and the file
  system. An edit of a configuration by its user changes \<open>heap\<close> at its reference.
\<close>

record state =
  instances :: "(string \<times> configuration) list"
  heap :: "nat \<Rightarrow> config_object"
  next_ref :: nat
  disk :: filesystem

text \<open>
  \<open>ConfigManager._instances[config_name] = _Configuration(obj, ...)\<close> followed by
  \<open>return ConfigManager._instances[config_name].config\<close>: the new object takes the
  next free reference.
\<close>

definition store ::
  "string \<Rightarrow> config_object \<Rightarrow> bool \<Rightarrow> config_type \<Rightarrow> string option \<Rightarrow> bool \<Rightarrow> state
     \<Rightarrow> (error + nat) \<times> state" where
  "store config_name obj enc t p ser s =
     (let r = next_ref s in
      (Inr r,
       s\<lparr>instances :=
            AList.update config_name
              \<lparr>config = r, is_encoded = enc, type' = t, path = p, serializable = ser\<rparr>
              (instances s),
         heap := (heap s)(r := obj),
         next_ref := Suc r\<rparr>))"

text \<open>
  The argument of \<open>_Configuration\<close> when the file exists:
  \<open>config_type().from_json(loads(b85decode(f.read()).decode()))\<close>, or without
  \<open>b85decode\<close> in plain mode. \<open>open\<close> comes first, then \<open>config_type()\<close>, then the
  decoding from the inside out; the first error ends the evaluation.
\<close>

definition read_config :: "filesystem \<Rightarrow> config_type \<Rightarrow> string \<Rightarrow> bool \<Rightarrow> error + config_object" where
  "read_config fs t p enc =
     (case read_file fs p of
        Inl e \<Rightarrow> Inl e
      | Inr content \<Rightarrow>
          (case construct t of
             Inl e \<Rightarrow> Inl e
           | Inr _ \<Rightarrow>
               (case (if enc then b85decode content else Inr content) of
                  Inl e \<Rightarrow> Inl e
                | Inr text \<Rightarrow>
                    (case loads text of
                       Inl e \<Rightarrow> Inl e
                     | Inr data \<Rightarrow> from_json t data))))"

text \<open>\<open>ConfigManager._load_config\<close>.\<close>

definition load_config ::
  "string \<Rightarrow> config_type \<Rightarrow> string option \<Rightarrow> bool \<Rightarrow> bool \<Rightarrow> state \<Rightarrow> (error + nat) \<times> state" where
  "load_config config_name t config_path enc ser s =
     (if \<not> ser then
        (case construct t of
           Inl e \<Rightarrow> (Inl e, s)
         | Inr obj \<Rightarrow> store config_name obj True t config_path False s)
      else
        (let full = get_full_config_path (home (disk s)) config_name config_path in
         if isfile (disk s) full then
           (case read_config (disk s) t full enc of
              Inl e \<Rightarrow> (Inl e, s)
            | Inr obj \<Rightarrow> store config_name obj enc t (Some full) True s)
         else
           (case construct t of
              Inl e \<Rightarrow> (Inl e, s)
            | Inr obj \<Rightarrow> store config_name obj enc t (Some full) True s)))"

text \<open>\<open>ConfigManager.get_config\<close>.\<close>

definition get_config ::
  "string \<Rightarrow> config_type \<Rightarrow> string option \<Rightarrow> bool \<Rightarrow> bool \<Rightarrow> state \<Rightarrow> (error + nat) \<times> state" where
  "get_config config_name t config_path enc ser s =
     (let name = get_effective_config_name config_name in
      case map_of (instances s) name of
        Some current \<Rightarrow> (Inr (config current), s)
      | None \<Rightarrow> load_config name t config_path enc ser s)"

text \<open>\<open>ConfigManager.reload_config\<close>.\<close>

definition reload_config :: "string \<Rightarrow> state \<Rightarrow> (error + nat) \<times> state" where
  "reload_config config_name s =
     (let name = get_effective_config_name config_name in
      case map_of (instances s) name of
        None \<Rightarrow> (Inl ProgrammingException, s)
      | Some current \<Rightarrow>
          load_config name (type' current) (path current) (is_encoded current)
            (serializable current) s)"

text \<open>\<open>ConfigManager.close_config_without_save\<close>.\<close>

definition close_config_without_save :: "string \<Rightarrow> state \<Rightarrow> state" where
  "close_config_without_save config_name s =
     (let name = get_effective_config_name config_name in
      if map_of (instances s) name \<noteq> None
      then s\<lparr>instances := AList.delete name (instances s)\<rparr>
      else s)"

text \<open>
  \<open>ConfigManager._save_config\<close>. \<open>open\<close> of a path that is \<open>None\<close> raises
  \<open>TypeError\<close>; no record made by \<open>_load_config\<close> is serializable with such a path.
  \<open>open\<close> for writing empties the file before the argument of \<open>f.write\<close> is
  evaluated, so an error of \<open>dumps\<close> leaves the file empty.
\<close>

definition save_config ::
  "(pydict \<Rightarrow> bool) \<Rightarrow> (nat \<Rightarrow> config_object) \<Rightarrow> configuration \<Rightarrow> filesystem
     \<Rightarrow> (error + unit) \<times> filesystem" where
  "save_config encodable h c fs =
     (if \<not> serializable c then (Inr (), fs)
      else
        (case path c of
           None \<Rightarrow> (Inl TypeError, fs)
         | Some p \<Rightarrow>
             (case write_file fs p (Raw []) of
                Inl e \<Rightarrow> (Inl e, fs)
              | Inr opened \<Rightarrow>
                  (case dumps encodable (to_json (h (config c))) of
                     Inl e \<Rightarrow> (Inl e, opened)
                   | Inr text \<Rightarrow>
                       (case write_file opened p
                               (if is_encoded c then b85encode text else text) of
                          Inl e \<Rightarrow> (Inl e, opened)
                        | Inr fs' \<Rightarrow> (Inr (), fs'))))))"

text \<open>
  The loop of \<open>ConfigManager.save\<close> over \<open>_instances.values()\<close>: an error leaves the
  loop, with the files written so far.
\<close>

fun save_each ::
  "(pydict \<Rightarrow> bool) \<Rightarrow> (nat \<Rightarrow> config_object) \<Rightarrow> configuration list \<Rightarrow> filesystem
     \<Rightarrow> (error + unit) \<times> filesystem" where
  "save_each encodable h [] fs = (Inr (), fs)"
| "save_each encodable h (c # cs) fs =
     (case save_config encodable h c fs of
        (Inl e, fs') \<Rightarrow> (Inl e, fs')
      | (Inr _, fs') \<Rightarrow> save_each encodable h cs fs')"

definition save :: "(pydict \<Rightarrow> bool) \<Rightarrow> state \<Rightarrow> (error + unit) \<times> state" where
  "save encodable s =
     (case save_each encodable (heap s) (map snd (instances s)) (disk s) of
        (r, fs') \<Rightarrow> (r, s\<lparr>disk := fs'\<rparr>))"

section \<open>What the specification says of a save, and the states that can arise\<close>

text \<open>
  Following the specification's words for a save: the content that a record is
  persisted with is the base85 text of the JSON text of its instance when the record is
  encoded, and the JSON text otherwise.
\<close>

definition persisted :: "(nat \<Rightarrow> config_object) \<Rightarrow> configuration \<Rightarrow> bytes" where
  "persisted h c =
     (if is_encoded c then B85 (JsonText (to_json (h (config c))))
      else JsonText (to_json (h (config c))))"


text \<open>
  A record can be saved: it is not serializable, and then it is skipped, or \<open>open\<close>
  for writing succeeds at its path and its instance can be encoded.
\<close>

definition savable ::
  "(pydict \<Rightarrow> bool) \<Rightarrow> (nat \<Rightarrow> config_object) \<Rightarrow> filesystem \<Rightarrow> configuration \<Rightarrow> bool" where
  "savable encodable h fs c =
     (\<not> serializable c \<or>
      (case path c of
         None \<Rightarrow> False
       | Some p \<Rightarrow> p \<notin> unwritable fs \<and> encodable (to_json (h (config c)))))"

text \<open>
  The error of a record that cannot be saved, and what its attempt leaves of the files:
  a file that could be opened is left empty.
\<close>

definition failure :: "filesystem \<Rightarrow> configuration \<Rightarrow> error" where
  "failure fs c =
     (case path c of
        None \<Rightarrow> TypeError
      | Some p \<Rightarrow> if p \<in> unwritable fs then OSError else TypeError)"

definition left_open ::
  "filesystem \<Rightarrow> configuration \<Rightarrow> (string \<rightharpoonup> bytes) \<Rightarrow> (string \<rightharpoonup> bytes)" where
  "left_open fs c f =
     (case path c of
        None \<Rightarrow> f
      | Some p \<Rightarrow> if p \<in> unwritable fs then f else f(p \<mapsto> Raw []))"

text \<open>
  What holds of the registry in every state that the operations reach from the empty
  registry: the instance of a record has been allocated, and its type was constructed
  with no argument when the record was made, so it can be constructed so again.
\<close>

definition wf_state :: "state \<Rightarrow> bool" where
  "wf_state s =
     list_all (\<lambda>(n, c). config c < next_ref s \<and> \<not> isl (construct (type' c))) (instances s)"

section \<open>Example states\<close>

text \<open>
  A disk with one plain configuration file and one path that cannot be written; the
  empty registry; the registry after \<open>get_config('app', DictConfig, '/cfg')\<close>;
  registries with serializable and in-memory records that were edited since they were
  made; a registry whose only record lies at the path that cannot be written, and one
  where that record stands between two others; a registry with a record whose instance
  holds an integer that \<open>orjson\<close> does not encode; the registry after
  \<open>get_config('  MyApp ', serializable=False)\<close>; and dataclasses with a field that has
  no default, with defaults, and with a field that is no parameter of \<open>__init__\<close>.
\<close>

definition ex_disk :: filesystem where
  "ex_disk =
     \<lparr>files = [''/cfg/app.ecfg'' \<mapsto> JsonText [(''k'', JInt 1)]],
      unreadable = {},
      unwritable = {''/ro/locked.ecfg''},
      home = ''/home/u''\<rparr>"

definition ex_empty :: state where
  "ex_empty = \<lparr>instances = [], heap = (\<lambda>_. DictObj []), next_ref = 0, disk = ex_disk\<rparr>"

definition ex_app :: configuration where
  "ex_app =
     \<lparr>config = 0, is_encoded = False, type' = DictConfig,
      path = Some ''/cfg/app.ecfg'', serializable = True\<rparr>"

definition ex_loaded :: state where
  "ex_loaded =
     \<lparr>instances = [(''app'', ex_app)],
      heap = (\<lambda>_. DictObj [])(0 := DictObj [(''k'', JInt 1)]),
      next_ref = 1,
      disk = ex_disk\<rparr>"

definition ex_scratch :: configuration where
  "ex_scratch =
     \<lparr>config = 1, is_encoded = True, type' = DictConfig, path = None, serializable = False\<rparr>"

definition ex_two :: state where
  "ex_two =
     \<lparr>instances = [(''app'', ex_app), (''scratch'', ex_scratch)],
      heap = (\<lambda>_. DictObj [])(0 := DictObj [(''k'', JInt 2)], 1 := DictObj [(''tmp'', JBool True)]),
      next_ref = 2,
      disk = ex_disk\<rparr>"

definition ex_locked :: state where
  "ex_locked =
     \<lparr>instances =
        [(''locked'',
          \<lparr>config = 0, is_encoded = False, type' = DictConfig,
           path = Some ''/ro/locked.ecfg'', serializable = True\<rparr>)],
      heap = (\<lambda>_. DictObj []),
      next_ref = 1,
      disk = ex_disk\<rparr>"

definition ex_required :: config_type where
  "ex_required = DataclassConfiguration [(''port'', Param None)] True"


definition ex_vault :: configuration where
  "ex_vault =
     \<lparr>config = 2, is_encoded = True, type' = DictConfig,
      path = Some ''/cfg/vault.ecfg'', serializable = True\<rparr>"

definition ex_three :: state where
  "ex_three =
     \<lparr>instances = [(''app'', ex_app), (''scratch'', ex_scratch), (''vault'', ex_vault)],
      heap = (\<lambda>_. DictObj [])
               (0 := DictObj [(''k'', JInt 2)],
                1 := DictObj [(''tmp'', JBool True)],
                2 := DictObj [(''pin'', JStr ''0000'')]),
      next_ref = 3,
      disk = ex_disk\<rparr>"







section \<open>Auxiliary facts\<close>




lemma savable_files [simp]:
  "savable encodable h (fs\<lparr>files := g\<rparr>) = savable encodable h fs"
  by (simp add: savable_def fun_eq_iff cong: option.case_cong)

lemma failure_files [simp]:
  "failure (fs\<lparr>files := g\<rparr>) = failure fs"
  by (simp add: failure_def fun_eq_iff cong: option.case_cong)

lemma left_open_files [simp]:
  "left_open (fs\<lparr>files := g\<rparr>) c = left_open fs c"
  by (simp add: left_open_def fun_eq_iff cong: option.case_cong)

lemma persisted_written:
  "encodable (to_json (h (config c))) \<Longrightarrow>
     (case dumps encodable (to_json (h (config c))) of
        Inl e \<Rightarrow> None
      | Inr text \<Rightarrow> Some (if is_encoded c then b85encode text else text))
       = Some (persisted h c)"
  by (simp add: dumps_def b85encode_def persisted_def)







lemma list_all_update:
  "list_all P al \<Longrightarrow> P (k, v) \<Longrightarrow> list_all P (AList.update k v al)"
  by (induction al) auto

lemma list_all_delete:
  "list_all P al \<Longrightarrow> list_all P (AList.delete k al)"
  by (induction al) auto

lemma wf_state_store:
  assumes "wf_state s" "\<not> isl (construct t)"
  shows "wf_state (snd (store n obj enc t p ser s))"
proof -
  have "list_all (\<lambda>(n, c). config c < Suc (next_ref s) \<and> \<not> isl (construct (type' c))) (instances s)"
    using assms(1) unfolding wf_state_def by (auto simp: list_all_iff)
  then show ?thesis
    using assms(2) by (simp add: store_def wf_state_def Let_def list_all_update)
qed

lemma read_config_constructible:
  "read_config fs t p enc = Inr obj \<Longrightarrow> \<not> isl (construct t)"
  by (auto simp: read_config_def split: sum.splits)

lemma wf_state_load_config:
  assumes "wf_state s"
  shows "wf_state (snd (load_config n t p enc ser s))"
  using assms
  by (auto simp: load_config_def Let_def wf_state_store read_config_constructible
           split: sum.splits)

lemma wf_state_get_config:
  "wf_state s \<Longrightarrow> wf_state (snd (get_config n t p enc ser s))"
  by (auto simp: get_config_def Let_def wf_state_load_config split: option.splits)

lemma wf_state_reload_config:
  "wf_state s \<Longrightarrow> wf_state (snd (reload_config n s))"
  by (auto simp: reload_config_def Let_def wf_state_load_config split: option.splits)

lemma wf_state_close:
  "wf_state s \<Longrightarrow> wf_state (close_config_without_save n s)"
  by (auto simp: close_config_without_save_def Let_def wf_state_def list_all_delete)

lemma wf_state_save:
  "wf_state s \<Longrightarrow> wf_state (snd (save encodable s))"
  by (auto simp: save_def wf_state_def split: prod.splits)

lemma load_config_in_memory:
  "construct t = Inr obj \<Longrightarrow>
     load_config n t p enc False s = store n obj True t p False s"
  by (simp add: load_config_def)

lemma get_config_unregistered:
  "map_of (instances s) (get_effective_config_name config_name) = None \<Longrightarrow>
     get_config config_name t p enc ser s
       = load_config (get_effective_config_name config_name) t p enc ser s"
  by (simp add: get_config_def)

lemma store_result:
  "fst (store n obj enc t p ser s) = Inr (next_ref s)"
  "map_of (instances (snd (store n obj enc t p ser s))) n
     = Some \<lparr>config = next_ref s, is_encoded = enc, type' = t, path = p, serializable = ser\<rparr>"
  "heap (snd (store n obj enc t p ser s)) (next_ref s) = obj"
  "disk (snd (store n obj enc t p ser s)) = disk s"
  by (simp_all add: store_def Let_def AList.update_conv')

lemma store_disk:
  "store n obj enc t p ser (s\<lparr>disk := d\<rparr>)
     = (fst (store n obj enc t p ser s), (snd (store n obj enc t p ser s))\<lparr>disk := d\<rparr>)"
  by (simp add: store_def Let_def)



lemma reload_config_registered:
  "map_of (instances s) (get_effective_config_name config_name) = Some current \<Longrightarrow>
     reload_config config_name s
       = load_config (get_effective_config_name config_name) (type' current) (path current)
           (is_encoded current) (serializable current) s"
  by (simp add: reload_config_def)

lemma load_config_missing_file:
  "\<not> isfile (disk s) (get_full_config_path (home (disk s)) n p) \<Longrightarrow> construct t = Inr obj \<Longrightarrow>
     load_config n t p enc True s
       = store n obj enc t (Some (get_full_config_path (home (disk s)) n p)) True s"
  by (simp add: load_config_def Let_def)

lemma load_config_construct_error:
  "\<not> isfile (disk s) (get_full_config_path (home (disk s)) n p) \<or> \<not> ser \<Longrightarrow>
     construct t = Inl e \<Longrightarrow> load_config n t p enc ser s = (Inl e, s)"
  by (auto simp: load_config_def Let_def)

lemma load_config_construct_ok:
  "\<not> isfile (disk s) (get_full_config_path (home (disk s)) n p) \<or> \<not> ser \<Longrightarrow>
     construct t = Inr obj \<Longrightarrow>
     load_config n t p enc ser s
       = store n obj (if ser then enc else True) t
           (if ser then Some (get_full_config_path (home (disk s)) n p) else p) ser s"
  by (auto simp: load_config_def Let_def)

lemma store_frame:
  "k \<noteq> n \<Longrightarrow> map_of (instances (snd (store n obj enc t p ser s))) k = map_of (instances s) k"
  "a \<noteq> next_ref s \<Longrightarrow> heap (snd (store n obj enc t p ser s)) a = heap s a"
  by (simp_all add: store_def Let_def AList.update_conv')

lemma wf_state_fresh:
  "wf_state s \<Longrightarrow> list_all (\<lambda>(k, c). config c \<noteq> next_ref s) (instances s)"
  by (auto simp: wf_state_def list_all_iff)

lemma join_extends:
  assumes "\<not> startswith_sep b" and "b \<noteq> []"
  shows "join a b \<noteq> a"
  using assms by (auto simp: join_def)

lemma reload_config_full_path:
  assumes "map_of (instances s) (get_effective_config_name config_name) = Some current"
    and "serializable current" and "path current = Some p" and "p \<noteq> []"
    and "reload_config config_name s = (Inr r, s')"
  shows "\<exists>c. map_of (instances s') (get_effective_config_name config_name) = Some c
             \<and> path c = Some (join p (get_effective_config_name config_name @ ''.ecfg''))"
  using assms
  by (auto simp: reload_config_def load_config_def Let_def store_def get_full_config_path_def
        AList.update_conv' split: if_splits sum.splits)

lemma wf_state_empty: "instances s = [] \<Longrightarrow> wf_state s"
  by (simp add: wf_state_def)

text \<open>
  A call of \<open>get_config\<close> that returns leaves the name registered with the reference
  it returned, so a second call under a name with the same effective name returns the
  same reference and changes nothing.
\<close>

lemma store_registers:
  "store n obj enc t p ser s = (Inr r, s') \<Longrightarrow>
     \<exists>c. map_of (instances s') n = Some c \<and> config c = r"
  by (auto simp: store_def Let_def AList.update_conv')

lemma load_config_registers:
  assumes "load_config n t p enc ser s = (Inr r, s')"
  shows "\<exists>c. map_of (instances s') n = Some c \<and> config c = r"
proof (cases ser)
  case False
  with assms show ?thesis
    by (cases "construct t") (auto simp: load_config_def dest: store_registers)
next
  case True
  let ?full = "get_full_config_path (home (disk s)) n p"
  show ?thesis
  proof (cases "isfile (disk s) ?full")
    case isf: True
    with True assms show ?thesis
      by (cases "read_config (disk s) t ?full enc")
         (auto simp: load_config_def Let_def dest: store_registers)
  next
    case nof: False
    with True assms show ?thesis
      by (cases "construct t") (auto simp: load_config_def Let_def dest: store_registers)
  qed
qed

lemma get_config_registers:
  assumes "get_config config_name t p enc ser s = (Inr r, s')"
  shows "\<exists>c. map_of (instances s') (get_effective_config_name config_name) = Some c
             \<and> config c = r"
proof (cases "map_of (instances s) (get_effective_config_name config_name)")
  case None
  with assms show ?thesis
    by (simp add: get_config_def load_config_registers)
next
  case (Some c)
  with assms show ?thesis
    by (auto simp: get_config_def)
qed

lemma get_config_twice:
  assumes "get_config a t p enc ser s = (Inr r, s')"
    and "get_effective_config_name b = get_effective_config_name a"
  shows "get_config b t' p' enc' ser' s' = (Inr r, s')"
proof -
  from get_config_registers [OF assms(1)] obtain c
    where "map_of (instances s') (get_effective_config_name a) = Some c" and "config c = r"
    by blast
  with assms(2) show ?thesis
    by (simp add: get_config_def)
qed






section \<open>Names\<close>

lemma name_app: "get_effective_config_name ''app'' = ''app''"
  by code_simp


lemma name_myapp_lower: "get_effective_config_name ''myapp'' = ''myapp''"
  by code_simp

lemma name_locked: "get_effective_config_name ''locked'' = ''locked''"
  by code_simp

lemma name_scratch: "get_effective_config_name ''scratch'' = ''scratch''"
  by code_simp

lemma path_cfg_app: "get_full_config_path ''/home/u'' ''app'' (Some ''/cfg'') = ''/cfg/app.ecfg''"
  by (simp add: get_full_config_path_def join_def endswith_sep_def)

lemma path_cfg_app_again:
  "get_full_config_path ''/home/u'' ''app'' (Some ''/cfg/app.ecfg'') = ''/cfg/app.ecfg/app.ecfg''"
  by (simp add: get_full_config_path_def join_def endswith_sep_def)

lemma path_ro_locked:
  "get_full_config_path ''/home/u'' ''locked'' (Some ''/ro'') = ''/ro/locked.ecfg''"
  by (simp add: get_full_config_path_def join_def endswith_sep_def)

lemma path_home_scratch:
  "get_full_config_path ''/home/u'' ''scratch'' None = ''/home/u/.empire/scratch.ecfg''"
  by (simp add: get_full_config_path_def join_def endswith_sep_def)



section \<open>Reading the registry\<close>

text \<open>
  Claim C3. When the effective name is registered, \<open>get_config\<close> returns the reference
  that the record holds, which is the object in the registry itself and no copy of it,
  whatever type, path, encoding flag and serializable flag the call gives; and the whole
  state, the registry with it, is as before.
\<close>

theorem get_config_cached:
  assumes "map_of (instances s) (get_effective_config_name config_name) = Some current"
  shows "get_config config_name t config_path enc ser s = (Inr (config current), s)"
  using assms by (simp add: get_config_def)

theorem get_config_cached_witness:
  "map_of (instances ex_loaded) (get_effective_config_name ''app'') = Some ex_app
   \<and> get_config ''app'' ex_required (Some ''/elsewhere'') True False ex_loaded
       = (Inr 0, ex_loaded)"
proof -
  have h: "map_of (instances ex_loaded) (get_effective_config_name ''app'') = Some ex_app"
    by (simp add: name_app ex_loaded_def)
  show ?thesis
    using h get_config_cached [OF h, of ex_required "Some ''/elsewhere''" True False]
    by (simp add: ex_app_def)
qed

text \<open>
  Claim C6. When the effective name has no entry in the registry, \<open>reload_config\<close>
  raises \<open>ProgrammingException\<close> (the error that the specification calls
  \<open>NotLoadedError\<close>), and the state, registry and files, is as before.
\<close>

theorem reload_config_not_loaded:
  assumes "map_of (instances s) (get_effective_config_name config_name) = None"
  shows "reload_config config_name s = (Inl ProgrammingException, s)"
  using assms by (simp add: reload_config_def)

theorem reload_config_not_loaded_witness:
  "map_of (instances ex_loaded) (get_effective_config_name ''myapp'') = None
   \<and> reload_config ''myapp'' ex_loaded = (Inl ProgrammingException, ex_loaded)"
proof -
  have h: "map_of (instances ex_loaded) (get_effective_config_name ''myapp'') = None"
    by (simp add: name_myapp_lower ex_loaded_def)
  show ?thesis using h reload_config_not_loaded [OF h] by simp
qed

text \<open>
  Claim C9. \<open>close_config_without_save\<close> removes the entry of the effective name and
  leaves every other entry as it is; the disk, the objects and the next reference are
  unchanged, so nothing is written; and when the name has no entry the state is as
  before.
\<close>

theorem close_config_without_save_frame:
  "map_of (instances (close_config_without_save config_name s))
     = (map_of (instances s))(get_effective_config_name config_name := None)
   \<and> disk (close_config_without_save config_name s) = disk s
   \<and> heap (close_config_without_save config_name s) = heap s
   \<and> next_ref (close_config_without_save config_name s) = next_ref s
   \<and> (map_of (instances s) (get_effective_config_name config_name) = None
        \<longrightarrow> close_config_without_save config_name s = s)"
  by (auto simp: close_config_without_save_def Let_def AList.delete_conv')

theorem close_config_without_save_frame_witness:
  "map_of (instances (close_config_without_save ''app'' ex_two)) ''app'' = None
   \<and> map_of (instances (close_config_without_save ''app'' ex_two)) ''scratch'' = Some ex_scratch
   \<and> disk (close_config_without_save ''app'' ex_two) = ex_disk
   \<and> map_of (instances ex_two) (get_effective_config_name ''myapp'') = None
   \<and> close_config_without_save ''myapp'' ex_two = ex_two"
proof -
  have h: "map_of (instances ex_two) (get_effective_config_name ''myapp'') = None"
    by (simp add: name_myapp_lower ex_two_def)
  have a: "map_of (instances (close_config_without_save ''app'' ex_two))
             = (map_of (instances ex_two))(''app'' := None)"
    and d: "disk (close_config_without_save ''app'' ex_two) = disk ex_two"
    using close_config_without_save_frame [of "''app''" ex_two] by (simp_all add: name_app)
  have c: "close_config_without_save ''myapp'' ex_two = ex_two"
    using close_config_without_save_frame [of "''myapp''" ex_two] h by simp
  show ?thesis using h c by (simp add: a d) (simp add: ex_two_def)
qed

section \<open>Dataclass configurations\<close>




section \<open>Loading a configuration that is not registered\<close>

text \<open>
  Claim C4, as amended. Let the effective name be not registered and no file exist at
  the resolved path, and let \<open>get_config\<close> be called with \<open>serializable=True\<close>. When
  the type can be constructed with no argument, no error is raised: a record that holds a
  new instance built by that construction, the resolved path and the caller's encoding
  flag is stored, and the instance is returned. When the type cannot be constructed with
  no argument, the error of the construction is raised and the state is as before. In
  both cases the disk is as before, so no file is created.
\<close>

theorem get_config_missing_file:
  assumes "map_of (instances s) (get_effective_config_name config_name) = None"
    and "files (disk s)
           (get_full_config_path (home (disk s)) (get_effective_config_name config_name)
              config_path) = None"
  shows "(construct t = Inr obj \<longrightarrow>
           get_config config_name t config_path enc True s =
             (Inr (next_ref s),
              s\<lparr>instances :=
                   AList.update (get_effective_config_name config_name)
                     \<lparr>config = next_ref s, is_encoded = enc, type' = t,
                      path = Some (get_full_config_path (home (disk s))
                                     (get_effective_config_name config_name) config_path),
                      serializable = True\<rparr>
                     (instances s),
                heap := (heap s)(next_ref s := obj),
                next_ref := Suc (next_ref s)\<rparr>))
       \<and> (construct t = Inl e \<longrightarrow>
            get_config config_name t config_path enc True s = (Inl e, s))
       \<and> disk (snd (get_config config_name t config_path enc True s)) = disk s"
proof -
  let ?n = "get_effective_config_name config_name"
  let ?full = "get_full_config_path (home (disk s)) ?n config_path"
  have nofile: "\<not> isfile (disk s) ?full"
    using assms(2) by (simp add: isfile_def)
  have g: "get_config config_name t config_path enc True s
             = load_config ?n t config_path enc True s"
    using assms(1) by (rule get_config_unregistered)
  have ok: "construct t = Inr obj \<Longrightarrow>
              load_config ?n t config_path enc True s = store ?n obj enc t (Some ?full) True s"
    using nofile by (simp add: load_config_missing_file)
  have err: "construct t = Inl e \<Longrightarrow> load_config ?n t config_path enc True s = (Inl e, s)" for e
    using nofile by (simp add: load_config_construct_error)
  have "disk (snd (load_config ?n t config_path enc True s)) = disk s"
  proof (cases "construct t")
    case (Inl e)
    then show ?thesis by (simp add: err)
  next
    case (Inr obj)
    with nofile show ?thesis by (simp add: load_config_missing_file store_result)
  qed
  then show ?thesis
    unfolding g using ok err by (simp add: store_def Let_def)
qed

theorem get_config_missing_file_witness:
  "map_of (instances ex_empty) (get_effective_config_name ''locked'') = None
   \<and> files (disk ex_empty)
        (get_full_config_path (home (disk ex_empty)) (get_effective_config_name ''locked'')
           (Some ''/ro'')) = None
   \<and> construct DictConfig = Inr (DictObj [])
   \<and> get_config ''locked'' DictConfig (Some ''/ro'') False True ex_empty = (Inr 0, ex_locked)
   \<and> disk ex_locked = disk ex_empty
   \<and> construct ex_required = Inl TypeError
   \<and> get_config ''locked'' ex_required (Some ''/ro'') False True ex_empty
       = (Inl TypeError, ex_empty)"
proof -
  have a: "map_of (instances ex_empty) (get_effective_config_name ''locked'') = None"
    by (simp add: ex_empty_def)
  have h: "home (disk ex_empty) = ''/home/u''"
    by (simp add: ex_empty_def ex_disk_def)
  have b: "files (disk ex_empty)
        (get_full_config_path (home (disk ex_empty)) (get_effective_config_name ''locked'')
           (Some ''/ro'')) = None"
    unfolding h name_locked path_ro_locked by (simp add: ex_empty_def ex_disk_def)
  have c: "construct DictConfig = Inr (DictObj [])"
    by (simp add: construct_def)
  have r: "construct ex_required = Inl TypeError"
    by (simp add: construct_def ex_required_def)
  have e: "ex_empty
            \<lparr>instances :=
               AList.update ''locked''
                 \<lparr>config = 0, is_encoded = False, type' = DictConfig,
                  path = Some ''/ro/locked.ecfg'', serializable = True\<rparr>
                 (instances ex_empty),
             heap := (heap ex_empty)(0 := DictObj []),
             next_ref := Suc 0\<rparr> = ex_locked"
    by (simp add: ex_empty_def ex_locked_def fun_eq_iff)
  have n: "next_ref ex_empty = 0"
    by (simp add: ex_empty_def)
  have d: "disk ex_locked = disk ex_empty"
    by (simp add: ex_empty_def ex_locked_def)
  from get_config_missing_file [OF a b, of DictConfig "DictObj []" False] c
  have 1: "get_config ''locked'' DictConfig (Some ''/ro'') False True ex_empty = (Inr 0, ex_locked)"
    unfolding h name_locked path_ro_locked n by (simp add: e)
  from get_config_missing_file [OF a b, of ex_required _ False TypeError] r
  have 2: "get_config ''locked'' ex_required (Some ''/ro'') False True ex_empty
             = (Inl TypeError, ex_empty)"
    by simp
  from a b c d r 1 2 show ?thesis by simp
qed

text \<open>
  Claim C4 as it is stated fails for a type that cannot be constructed with no argument:
  a dataclass with a field that has no default. The name is not registered and no file
  exists at the resolved path, yet \<open>get_config\<close> raises \<open>TypeError\<close> and stores
  nothing.
\<close>

theorem get_config_missing_file_counterexample:
  "map_of (instances ex_empty) (get_effective_config_name ''scratch'') = None
   \<and> \<not> isfile (disk ex_empty)
        (get_full_config_path (home (disk ex_empty)) (get_effective_config_name ''scratch'') None)
   \<and> get_config ''scratch'' ex_required None False True ex_empty = (Inl TypeError, ex_empty)"
proof -
  have a: "map_of (instances ex_empty) (get_effective_config_name ''scratch'') = None"
    by (simp add: ex_empty_def)
  have h: "home (disk ex_empty) = ''/home/u''"
    by (simp add: ex_empty_def ex_disk_def)
  have b: "\<not> isfile (disk ex_empty)
        (get_full_config_path (home (disk ex_empty)) (get_effective_config_name ''scratch'') None)"
    unfolding h name_scratch path_home_scratch by (simp add: isfile_def ex_empty_def ex_disk_def)
  have r: "construct ex_required = Inl TypeError"
    by (simp add: construct_def ex_required_def)
  have "get_config ''scratch'' ex_required None False True ex_empty = (Inl TypeError, ex_empty)"
    using a b r by (simp add: get_config_unregistered load_config_construct_error)
  with a b show ?thesis by simp
qed

text \<open>
  Claim C2, as amended. Let the effective name be not registered, and let \<open>get_config\<close>
  be called with \<open>serializable=False\<close>. When the type can be constructed with no
  argument, the call returns a new reference; the record stored under the name holds
  that reference, is not serializable, and has the caller's type and the caller's path;
  the object at the reference is the one built by that construction; every other entry of
  the registry and every other object is as before; and in a state that the operations
  can reach no record held the reference before. When the type cannot be constructed
  with no argument, the error of the construction is raised and the state is as before.
  In both cases the disk is as before, and the call reads nothing of it: on any other
  disk it returns the same result and builds the same state.
\<close>

theorem get_config_not_serializable:
  assumes "map_of (instances s) (get_effective_config_name config_name) = None"
  shows "(construct t = Inr obj \<longrightarrow>
           fst (get_config config_name t config_path enc False s) = Inr (next_ref s)
         \<and> (\<exists>c. map_of (instances (snd (get_config config_name t config_path enc False s)))
                   (get_effective_config_name config_name) = Some c
                 \<and> config c = next_ref s \<and> \<not> serializable c \<and> type' c = t
                 \<and> path c = config_path)
         \<and> heap (snd (get_config config_name t config_path enc False s)) (next_ref s) = obj
         \<and> (\<forall>k. k \<noteq> get_effective_config_name config_name \<longrightarrow>
               map_of (instances (snd (get_config config_name t config_path enc False s))) k
                 = map_of (instances s) k)
         \<and> (\<forall>a. a \<noteq> next_ref s \<longrightarrow>
               heap (snd (get_config config_name t config_path enc False s)) a = heap s a)
         \<and> (wf_state s \<longrightarrow> list_all (\<lambda>(k, c). config c \<noteq> next_ref s) (instances s)))
       \<and> (construct t = Inl e \<longrightarrow>
            get_config config_name t config_path enc False s = (Inl e, s))
       \<and> disk (snd (get_config config_name t config_path enc False s)) = disk s
       \<and> get_config config_name t config_path enc False (s\<lparr>disk := d\<rparr>)
           = (fst (get_config config_name t config_path enc False s),
              (snd (get_config config_name t config_path enc False s))\<lparr>disk := d\<rparr>)"
proof -
  let ?n = "get_effective_config_name config_name"
  have g: "get_config config_name t config_path enc False s
             = load_config ?n t config_path enc False s"
    using assms by (rule get_config_unregistered)
  have "map_of (instances (s\<lparr>disk := d\<rparr>)) ?n = None"
    using assms by simp
  then have g': "get_config config_name t config_path enc False (s\<lparr>disk := d\<rparr>)
             = load_config ?n t config_path enc False (s\<lparr>disk := d\<rparr>)"
    by (rule get_config_unregistered)
  show ?thesis
  proof (cases "construct t")
    case (Inl e')
    have "load_config ?n t config_path enc False s' = (Inl e', s')" for s'
      using Inl by (simp add: load_config_construct_error)
    then show ?thesis
      unfolding g g' using Inl by simp
  next
    case (Inr obj')
    have l: "load_config ?n t config_path enc False s' = store ?n obj' True t config_path False s'"
      for s'
      using Inr by (simp add: load_config_in_memory)
    show ?thesis
      unfolding g g' l using Inr
      by (simp add: store_result store_disk store_frame wf_state_fresh)
  qed
qed

theorem get_config_not_serializable_witness:
  "map_of (instances ex_loaded) (get_effective_config_name ''scratch'') = None
   \<and> construct DictConfig = Inr (DictObj [])
   \<and> wf_state ex_loaded
   \<and> fst (get_config ''scratch'' DictConfig None False False ex_loaded) = Inr 1
   \<and> heap (snd (get_config ''scratch'' DictConfig None False False ex_loaded)) 1 = DictObj []
   \<and> map_of (instances (snd (get_config ''scratch'' DictConfig None False False ex_loaded)))
        ''app'' = Some ex_app
   \<and> disk (snd (get_config ''scratch'' DictConfig None False False ex_loaded)) = ex_disk
   \<and> construct ex_required = Inl TypeError
   \<and> get_config ''scratch'' ex_required None False False ex_loaded = (Inl TypeError, ex_loaded)"
proof -
  have a: "map_of (instances ex_loaded) (get_effective_config_name ''scratch'') = None"
    by (simp add: ex_loaded_def name_scratch)
  have c: "construct DictConfig = Inr (DictObj [])"
    by (simp add: construct_def)
  have r: "construct ex_required = Inl TypeError"
    by (simp add: construct_def ex_required_def)
  have w: "wf_state ex_loaded"
    by (simp add: wf_state_def ex_loaded_def ex_app_def construct_def)
  have n: "next_ref ex_loaded = 1" "disk ex_loaded = ex_disk"
    "map_of (instances ex_loaded) ''app'' = Some ex_app"
    by (simp_all add: ex_loaded_def)
  have k: "''app'' \<noteq> get_effective_config_name ''scratch''"
    by (simp add: name_scratch)
  from get_config_not_serializable [OF a, of DictConfig "DictObj []" None False] c k
  have 1: "fst (get_config ''scratch'' DictConfig None False False ex_loaded) = Inr 1"
    "heap (snd (get_config ''scratch'' DictConfig None False False ex_loaded)) 1 = DictObj []"
    "map_of (instances (snd (get_config ''scratch'' DictConfig None False False ex_loaded)))
        ''app'' = Some ex_app"
    "disk (snd (get_config ''scratch'' DictConfig None False False ex_loaded)) = ex_disk"
    by (simp_all add: n)
  from get_config_not_serializable [OF a, of ex_required _ None False TypeError] r
  have 2: "get_config ''scratch'' ex_required None False False ex_loaded
             = (Inl TypeError, ex_loaded)"
    by simp
  from a c w r 1 2 show ?thesis by simp
qed

text \<open>
  Claim C2 as it is stated fails twice. The call gives \<open>is_encoded=False\<close> and the
  record stored has \<open>is_encoded = True\<close>: this branch of \<open>_load_config\<close> writes the
  constant where the branch for a missing file stores the argument. And for a type that
  cannot be constructed with no argument the call raises \<open>TypeError\<close> and stores no record.
\<close>

theorem get_config_not_serializable_counterexample:
  "map_of (instances ex_empty) (get_effective_config_name ''scratch'') = None
   \<and> map_of (instances (snd (get_config ''scratch'' DictConfig None False False ex_empty)))
        (get_effective_config_name ''scratch'')
       = Some \<lparr>config = 0, is_encoded = True, type' = DictConfig, path = None,
               serializable = False\<rparr>
   \<and> get_config ''scratch'' ex_required None False False ex_empty = (Inl TypeError, ex_empty)"
proof -
  have a: "map_of (instances ex_empty) (get_effective_config_name ''scratch'') = None"
    by (simp add: ex_empty_def)
  have c: "construct DictConfig = Inr (DictObj [])"
    by (simp add: construct_def)
  have r: "construct ex_required = Inl TypeError"
    by (simp add: construct_def ex_required_def)
  have n: "next_ref ex_empty = 0"
    by (simp add: ex_empty_def)
  have 1: "get_config ''scratch'' DictConfig None False False ex_empty
             = store (get_effective_config_name ''scratch'') (DictObj []) True DictConfig None False
                 ex_empty"
    using a c by (simp add: get_config_unregistered load_config_in_memory)
  have 2: "get_config ''scratch'' ex_required None False False ex_empty = (Inl TypeError, ex_empty)"
    using a r by (simp add: get_config_unregistered load_config_def)
  show ?thesis
    using a 2 unfolding 1 by (simp add: store_result n)
qed

section \<open>Reloading\<close>

text \<open>
  Claim C10. In a state that the operations can reach, \<open>reload_config\<close> on a name
  whose record is not serializable builds a new instance of the stored type with no
  argument, which succeeds, and puts a record with the new reference in the place of the
  old one; the new reference is returned and differs from the old one, so what was
  edited in the old instance is not in the new one; the disk is as before, and the call
  reads nothing of it: on any other disk it returns the same result and builds the same
  state.
\<close>

theorem reload_config_not_serializable:
  assumes "wf_state s"
    and "map_of (instances s) (get_effective_config_name config_name) = Some current"
    and "\<not> serializable current"
  shows "\<exists>obj. construct (type' current) = Inr obj
           \<and> reload_config config_name s =
               (Inr (next_ref s),
                s\<lparr>instances :=
                     AList.update (get_effective_config_name config_name)
                       \<lparr>config = next_ref s, is_encoded = True, type' = type' current,
                        path = path current, serializable = False\<rparr>
                       (instances s),
                  heap := (heap s)(next_ref s := obj),
                  next_ref := Suc (next_ref s)\<rparr>)
           \<and> next_ref s \<noteq> config current
           \<and> disk (snd (reload_config config_name s)) = disk s
           \<and> reload_config config_name (s\<lparr>disk := d\<rparr>)
               = (fst (reload_config config_name s), (snd (reload_config config_name s))\<lparr>disk := d\<rparr>)"
proof -
  let ?n = "get_effective_config_name config_name"
  from assms(2) have "(?n, current) \<in> set (instances s)"
    by (rule map_of_SomeD)
  with assms(1) have lt: "config current < next_ref s" and ok: "\<not> isl (construct (type' current))"
    by (auto simp: wf_state_def list_all_iff)
  from ok obtain obj where obj: "construct (type' current) = Inr obj"
    by (cases "construct (type' current)") auto
  have r: "reload_config config_name s
             = store ?n obj True (type' current) (path current) False s"
    using assms(2,3) obj by (simp add: reload_config_registered load_config_in_memory)
  have "map_of (instances (s\<lparr>disk := d\<rparr>)) ?n = Some current"
    using assms(2) by simp
  then have r': "reload_config config_name (s\<lparr>disk := d\<rparr>)
             = store ?n obj True (type' current) (path current) False (s\<lparr>disk := d\<rparr>)"
    using assms(3) obj by (simp add: reload_config_registered load_config_in_memory)
  have e: "store ?n obj True (type' current) (path current) False s =
               (Inr (next_ref s),
                s\<lparr>instances :=
                     AList.update ?n
                       \<lparr>config = next_ref s, is_encoded = True, type' = type' current,
                        path = path current, serializable = False\<rparr>
                       (instances s),
                  heap := (heap s)(next_ref s := obj),
                  next_ref := Suc (next_ref s)\<rparr>)"
    by (simp add: store_def Let_def)
  have "next_ref s \<noteq> config current"
    using lt by simp
  moreover note obj
  moreover have "reload_config config_name s =
               (Inr (next_ref s),
                s\<lparr>instances :=
                     AList.update ?n
                       \<lparr>config = next_ref s, is_encoded = True, type' = type' current,
                        path = path current, serializable = False\<rparr>
                       (instances s),
                  heap := (heap s)(next_ref s := obj),
                  next_ref := Suc (next_ref s)\<rparr>)"
    unfolding r by (rule e)
  moreover have "disk (snd (reload_config config_name s)) = disk s"
    unfolding r by (simp add: store_result)
  moreover have "reload_config config_name (s\<lparr>disk := d\<rparr>)
               = (fst (reload_config config_name s), (snd (reload_config config_name s))\<lparr>disk := d\<rparr>)"
    unfolding r r' by (rule store_disk)
  ultimately show ?thesis by blast
qed

theorem reload_config_not_serializable_witness:
  "wf_state ex_three
   \<and> map_of (instances ex_three) (get_effective_config_name ''scratch'') = Some ex_scratch
   \<and> \<not> serializable ex_scratch
   \<and> heap ex_three (config ex_scratch) = DictObj [(''tmp'', JBool True)]
   \<and> fst (reload_config ''scratch'' ex_three) = Inr 3
   \<and> heap (snd (reload_config ''scratch'' ex_three)) 3 = DictObj []
   \<and> disk (snd (reload_config ''scratch'' ex_three)) = ex_disk"
proof -
  have w: "wf_state ex_three"
    by (simp add: wf_state_def ex_three_def ex_app_def ex_scratch_def ex_vault_def construct_def)
  have r: "map_of (instances ex_three) (get_effective_config_name ''scratch'') = Some ex_scratch"
    by (simp add: name_scratch ex_three_def)
  have n: "\<not> serializable ex_scratch"
    by (simp add: ex_scratch_def)
  have c: "construct (type' ex_scratch) = Inr (DictObj [])"
    by (simp add: ex_scratch_def construct_def)
  have v: "next_ref ex_three = 3" "disk ex_three = ex_disk"
    "heap ex_three (config ex_scratch) = DictObj [(''tmp'', JBool True)]"
    by (simp_all add: ex_three_def ex_scratch_def)
  from reload_config_not_serializable [OF w r n]
  have "reload_config ''scratch'' ex_three =
               (Inr (next_ref ex_three),
                ex_three\<lparr>instances :=
                     AList.update (get_effective_config_name ''scratch'')
                       \<lparr>config = next_ref ex_three, is_encoded = True, type' = type' ex_scratch,
                        path = path ex_scratch, serializable = False\<rparr>
                       (instances ex_three),
                  heap := (heap ex_three)(next_ref ex_three := DictObj []),
                  next_ref := Suc (next_ref ex_three)\<rparr>)"
    unfolding c by blast
  then show ?thesis
    using w r n by (simp add: v)
qed

text \<open>
  Claim C1 fails on the code. \<open>reload_config\<close> gives the stored path, which is the
  full path of the file, to \<open>_load_config\<close> as if it were the directory, and
  \<open>get_full_config_path\<close> joins the file name to it once more. After
  \<open>get_config('app', DictConfig, '/cfg')\<close> has loaded \<open>/cfg/app.ecfg\<close>, a reload
  looks for \<open>/cfg/app.ecfg/app.ecfg\<close>, finds no file there, and stores an empty
  configuration under the new path: the file is not read again, and the path of the
  new record is not the path of the old one.
\<close>

theorem reload_config_joins_name_again:
  "get_config ''app'' DictConfig (Some ''/cfg'') False True ex_empty = (Inr 0, ex_loaded)
   \<and> map_of (instances ex_loaded) (get_effective_config_name ''app'') = Some ex_app
   \<and> serializable ex_app
   \<and> path ex_app = Some ''/cfg/app.ecfg''
   \<and> reload_config ''app'' ex_loaded =
       (Inr 1,
        ex_loaded
          \<lparr>instances := [(''app'', ex_app\<lparr>config := 1, path := Some ''/cfg/app.ecfg/app.ecfg''\<rparr>)],
           heap := (heap ex_loaded)(1 := DictObj []),
           next_ref := 2\<rparr>)"
proof -
  have "get_config ''app'' DictConfig (Some ''/cfg'') False True ex_empty = (Inr 0, ex_loaded)"
    by (simp add: Let_def get_config_def name_app load_config_def ex_empty_def ex_disk_def path_cfg_app
        isfile_def read_config_def read_file_def construct_def loads_def from_json_def
        store_def ex_loaded_def ex_app_def)
  moreover have "reload_config ''app'' ex_loaded =
       (Inr 1,
        ex_loaded
          \<lparr>instances := [(''app'', ex_app\<lparr>config := 1, path := Some ''/cfg/app.ecfg/app.ecfg''\<rparr>)],
           heap := (heap ex_loaded)(1 := DictObj []),
           next_ref := 2\<rparr>)"
    by (simp add: Let_def reload_config_def name_app load_config_def ex_loaded_def ex_app_def ex_disk_def
        path_cfg_app_again isfile_def construct_def store_def)
  ultimately show ?thesis
    by (simp add: name_app) (simp add: ex_loaded_def ex_app_def)
qed

section \<open>Saving\<close>




end
